theory Spec2Isabelle
  imports Main "HOL-Library.Sublist"
begin

section \<open>Python values and exceptions\<close>

text \<open>
  The bot is a Python class \<open>ComplianceAssistantBot\<close> (file \<open>app.py\<close>) whose methods call
  two AWS clients. Strings are \<open>string\<close>; \<open>None\<close> is \<open>None\<close> of an option type; a
  dictionary lookup \<open>d.get(k)\<close> is an option-valued field or map. Every exception the code
  can meet is a value of \<open>error\<close>, named after the place that raises it:

  \<^item> \<open>CredentialsNotFound\<close> is the \<open>ValueError\<close> that \<open>setup_aws_clients\<close> raises itself
    when a credential is missing (the specification calls it ConfigurationError);
  \<^item> \<open>LibraryError m\<close> is whatever exception a library call raised (\<open>int\<close>, \<open>float\<close>,
    \<open>boto3.client\<close>, \<open>kendra.query\<close>, \<open>bedrock.invoke_model\<close>, \<open>json.loads\<close>), with
    \<open>m\<close> its \<open>str(e)\<close>;
  \<^item> \<open>KeyError\<close>, \<open>IndexError\<close>, \<open>AttributeError\<close> and \<open>TypeError\<close> come from subscripting
    and attribute access in the code itself.

  In Python the first two kinds can share the class \<open>ValueError\<close> (\<open>int('abc')\<close> raises
  one too); they differ in their message, and the model keeps them apart by constructor.
\<close>

datatype error =
    CredentialsNotFound
  | LibraryError string
  | KeyError string
  | IndexError
  | AttributeError string
  | TypeError string

definition quote :: "string \<Rightarrow> string" where
  "quote s = [CHR 0x27] @ s @ [CHR 0x27]"

text \<open>\<open>str(e)\<close>: the message of an exception.\<close>

fun str_of :: "error \<Rightarrow> string" where
  "str_of CredentialsNotFound = ''AWS credentials not found. Please check your .env file.''"
| "str_of (LibraryError m) = m"
| "str_of (KeyError k) = quote k"
| "str_of IndexError = ''list index out of range''"
| "str_of (AttributeError m) = m"
| "str_of (TypeError m) = m"

text \<open>
  A library call either raises (\<open>Inl\<close> the message) or returns; \<open>lib\<close> turns its outcome
  into the model's result type.
\<close>

definition lib :: "string + 'a \<Rightarrow> error + 'a" where
  "lib r = (case r of Inl m \<Rightarrow> Inl (LibraryError m) | Inr v \<Rightarrow> Inr v)"

text \<open>Truthiness of an optional string: \<open>None\<close> and \<open>''\<close> are false.\<close>

fun truthy :: "string option \<Rightarrow> bool" where
  "truthy None = False"
| "truthy (Some s) = (s \<noteq> [])"

text \<open>\<open>"\n".join(parts)\<close>.\<close>

fun join_lines :: "string list \<Rightarrow> string" where
  "join_lines [] = []"
| "join_lines [x] = x"
| "join_lines (x # y # ys) = x @ ''\<newline>'' @ join_lines (y # ys)"

section \<open>The search service (Kendra) and the generation service (Bedrock)\<close>

text \<open>
  The response of \<open>kendra.query\<close> is a dictionary read only through \<open>.get\<close>; each key that
  may be missing is an option field. The service sends a dictionary or a string under
  a key it sends at all, never null.
\<close>

record score_attributes =
  ScoreConfidence :: "string option"

record text_with_highlights =
  Text :: "string option"

record query_result_item =
  ScoreAttributes :: "score_attributes option"
  DocumentExcerpt :: "text_with_highlights option"
  DocumentTitle :: "text_with_highlights option"

record query_response =
  ResultItems :: "query_result_item list option"

text \<open>The dictionary \<open>query_kendra_rag\<close> builds for a kept result.\<close>

record excerpt =
  r_text :: string
  r_title :: string
  r_confidence :: string

text \<open>
  The request body sent to the model and the decoded response body
  (\<open>json.loads(response['body'].read())\<close>), read as \<open>['content'][0]['text']\<close>.
  The type \<open>'f\<close> stands for Python's \<open>float\<close>, on which the code does no arithmetic.
\<close>

record message =
  msg_role :: string
  msg_content :: string

record 'f request_body =
  anthropic_version :: string
  req_max_tokens :: int
  req_temperature :: 'f
  messages :: "message list"

record content_block =
  block_text :: "string option"

record response_body =
  content :: "content_block list option"

text \<open>
  A client is the function its one method computes: \<open>kendra.query(IndexId, QueryText,
  PageSize)\<close> and \<open>bedrock.invoke_model(modelId, body, contentType)\<close> followed by the
  decoding of the body. \<open>Inl m\<close> is an exception with message \<open>m\<close>.
\<close>

type_synonym kendra_client = "string \<Rightarrow> string \<Rightarrow> nat \<Rightarrow> string + query_response"

type_synonym 'f bedrock_client = "string \<Rightarrow> 'f request_body \<Rightarrow> string \<Rightarrow> string + response_body"

record aws_config =
  region_name :: string
  aws_access_key_id :: "string option"
  aws_secret_access_key :: "string option"

record 'f model_config =
  model_id :: string
  max_tokens :: int
  temperature :: 'f
  kendra_index_id :: string
  min_confidence_score :: 'f

record 'f bot =
  aws_config :: aws_config
  bedrock_client :: "'f bedrock_client"
  kendra_client :: kendra_client
  model_config :: "'f model_config"

section \<open>Retrieval: \<open>query_kendra_rag\<close>\<close>

definition score_confidence :: "query_result_item \<Rightarrow> string option" where
  "score_confidence r = (case ScoreAttributes r of None \<Rightarrow> None | Some a \<Rightarrow> ScoreConfidence a)"

definition text_of :: "text_with_highlights option \<Rightarrow> string" where
  "text_of d = (case d of None \<Rightarrow> [] | Some t \<Rightarrow> (case Text t of None \<Rightarrow> [] | Some s \<Rightarrow> s))"

definition excerpt_of :: "query_result_item \<Rightarrow> excerpt" where
  "excerpt_of r =
     \<lparr>r_text = text_of (DocumentExcerpt r),
      r_title = text_of (DocumentTitle r),
      r_confidence = (case score_confidence r of None \<Rightarrow> [] | Some c \<Rightarrow> c)\<rparr>"

text \<open>The \<open>for\<close> loop that appends the kept results to \<open>relevant_results\<close>.\<close>

fun relevant_results :: "query_result_item list \<Rightarrow> excerpt list \<Rightarrow> excerpt list" where
  "relevant_results [] acc = acc"
| "relevant_results (r # rs) acc =
     (if score_confidence r = Some ''HIGH''
      then relevant_results rs (acc @ [excerpt_of r])
      else relevant_results rs acc)"

definition result_items :: "query_response \<Rightarrow> query_result_item list" where
  "result_items response = (case ResultItems response of None \<Rightarrow> [] | Some xs \<Rightarrow> xs)"

text \<open>
  \<open>query_kendra_rag\<close>: any exception of the call is caught and gives \<open>None\<close>; an empty
  list of kept results gives \<open>None\<close> as well.
\<close>

definition query_kendra_rag :: "'f bot \<Rightarrow> string \<Rightarrow> excerpt list option" where
  "query_kendra_rag b question =
     (case kendra_client b (kendra_index_id (model_config b)) question 5 of
        Inl e \<Rightarrow> None
      | Inr response \<Rightarrow>
          (let kept = relevant_results (result_items response) []
           in if kept \<noteq> [] then Some kept else None))"

section \<open>Prompt construction: \<open>create_compliance_prompt\<close>\<close>

definition prompt_head :: string where
  "prompt_head =
     ''You are an expert compliance officer assistant with deep knowledge of financial regulations, AML (Anti-Money Laundering), KYC (Know Your Customer), trading compliance, and regulatory reporting requirements.\<newline>'' @
     ''\<newline>'' @
     ''Your role is to provide accurate, actionable guidance on compliance matters while being clear about when additional legal consultation may be needed.\<newline>'' @
     ''\<newline>'' @
     ''Guidelines for your responses:\<newline>'' @
     ''1. Provide clear, structured answers\<newline>'' @
     ''2. Include relevant regulatory references when applicable\<newline>'' @
     ''3. Highlight key action items or requirements\<newline>'' @
     ''4. Mention potential consequences of non-compliance\<newline>'' @
     ''5. Suggest when to consult legal counsel for complex matters\<newline>'' @
     ''6. Use bullet points for clarity when listing requirements\<newline>'' @
     ''\<newline>'' @
     ''Question: ''"

definition prompt_tail :: string where
  "prompt_tail =
     ''\<newline>'' @
     ''\<newline>'' @
     ''Please provide a comprehensive answer that addresses all aspects of this compliance question.''"

text \<open>
  The f-string: the question after \<open>Question: \<close>, a blank line, then the context block,
  which is empty when \<open>context\<close> is \<open>None\<close> or the empty string.
\<close>

definition create_compliance_prompt :: "string \<Rightarrow> string option \<Rightarrow> string" where
  "create_compliance_prompt question context =
     prompt_head @ question @ ''\<newline>\<newline>'' @
     (case context of
        None \<Rightarrow> []
      | Some c \<Rightarrow> (if c \<noteq> [] then ''Additional Context: '' @ c else [])) @
     prompt_tail"

section \<open>Generation: \<open>query_bedrock_llm\<close>\<close>

definition make_request :: "'f bot \<Rightarrow> string \<Rightarrow> 'f request_body" where
  "make_request b prompt =
     \<lparr>anthropic_version = ''bedrock-2023-05-31'',
      req_max_tokens = max_tokens (model_config b),
      req_temperature = temperature (model_config b),
      messages = [\<lparr>msg_role = ''user'', msg_content = prompt\<rparr>]\<rparr>"

text \<open>\<open>response_body['content'][0]['text']\<close>, with the exception of each subscript.\<close>

definition first_text :: "response_body \<Rightarrow> error + string" where
  "first_text rb =
     (case content rb of
        None \<Rightarrow> Inl (KeyError ''content'')
      | Some [] \<Rightarrow> Inl IndexError
      | Some (blk # _) \<Rightarrow>
          (case block_text blk of None \<Rightarrow> Inl (KeyError ''text'') | Some t \<Rightarrow> Inr t))"

text \<open>The body of the \<open>try\<close> block of \<open>query_bedrock_llm\<close>.\<close>

definition invoke :: "'f bot \<Rightarrow> string \<Rightarrow> error + string" where
  "invoke b prompt =
     (case lib (bedrock_client b (model_id (model_config b)) (make_request b prompt)
                  ''application/json'') of
        Inl e \<Rightarrow> Inl e
      | Inr rb \<Rightarrow> first_text rb)"

definition apology :: string where
  "apology = ''I apologize, but I encountered an error while processing your question: ''"

definition query_bedrock_llm :: "'f bot \<Rightarrow> string \<Rightarrow> string" where
  "query_bedrock_llm b prompt =
     (case invoke b prompt of Inl e \<Rightarrow> apology @ str_of e | Inr answer \<Rightarrow> answer)"

section \<open>The orchestrator: \<open>get_compliance_answer\<close>\<close>

record compliance_answer =
  question :: string
  answer :: string
  rag_used :: bool
  context_sources :: "excerpt list option"
  timestamp :: string

text \<open>
  Step 1. \<open>kendra_results\<close> is bound only when \<open>use_rag\<close> holds; it is read again only
  under \<open>rag_used\<close>, so \<open>None\<close> stands for the unbound name.
\<close>

definition retrieve :: "'f bot \<Rightarrow> string \<Rightarrow> bool \<Rightarrow> excerpt list option" where
  "retrieve b q use_rag = (if use_rag then query_kendra_rag b q else None)"

text \<open>\<open>"\n".join([f"- {result['text']}" for result in kendra_results[:3]])\<close>\<close>

definition build_context :: "excerpt list \<Rightarrow> string" where
  "build_context rs = join_lines (map (\<lambda>r. ''- '' @ r_text r) (take 3 rs))"

text \<open>\<open>context\<close> and \<open>rag_used\<close> after \<open>if kendra_results:\<close> (false for \<open>None\<close> and \<open>[]\<close>).\<close>

definition rag_context :: "excerpt list option \<Rightarrow> string option \<times> bool" where
  "rag_context kendra_results =
     (case kendra_results of
        Some (r # rs) \<Rightarrow> (Some (build_context (r # rs)), True)
      | _ \<Rightarrow> (None, False))"

text \<open>
  The body of the \<open>try\<close> block. \<open>now\<close> is the value of \<open>datetime.now().isoformat()\<close>.
  No step of the body raises: both queries catch every exception themselves.
\<close>

definition get_compliance_answer_try ::
  "'f bot \<Rightarrow> string \<Rightarrow> string \<Rightarrow> bool \<Rightarrow> error + compliance_answer" where
  "get_compliance_answer_try b now q use_rag =
     (let kendra_results = retrieve b q use_rag;
          (context, used) = rag_context kendra_results;
          prompt = create_compliance_prompt q context;
          a = query_bedrock_llm b prompt
      in Inr \<lparr>question = q, answer = a, rag_used = used,
              context_sources = (if used then kendra_results else None),
              timestamp = now\<rparr>)"

definition get_compliance_answer ::
  "'f bot \<Rightarrow> string \<Rightarrow> string \<Rightarrow> bool \<Rightarrow> compliance_answer" where
  "get_compliance_answer b now q use_rag =
     (case get_compliance_answer_try b now q use_rag of
        Inr result \<Rightarrow> result
      | Inl e \<Rightarrow>
          \<lparr>question = q,
           answer = ''I apologize, but I encountered an error: '' @ str_of e,
           rag_used = False, context_sources = None, timestamp = now\<rparr>)"

section \<open>Configuration: \<open>setup_aws_clients\<close>\<close>

text \<open>
  The process environment after \<open>load_dotenv()\<close> is a map; \<open>os.getenv(k)\<close> is \<open>env k\<close> and
  \<open>os.getenv(k, d)\<close> is \<open>getenv env k d\<close>.
\<close>

type_synonym environ = "string \<rightharpoonup> string"

definition getenv :: "environ \<Rightarrow> string \<Rightarrow> string \<Rightarrow> string" where
  "getenv env k d = (case env k of None \<Rightarrow> d | Some v \<Rightarrow> v)"

text \<open>
  What the code takes from outside: the builtins \<open>int\<close> and \<open>float\<close>, the two
  \<open>boto3.client\<close> constructors, \<open>json.loads\<close> (used by the handler) and the clock.
\<close>

datatype json = JNull | JBool bool | JInt int | JStr string | JList "json list"
  | JDict "(string \<times> json) list"

text \<open>
  The decoded POST body, as far as the handler reads it: a value that is no dictionary
  (with its Python type name), or a dictionary with its \<open>question\<close> (a string, as the
  handler's contract has it; \<open>None\<close> when the key is missing or null) and its \<open>use_rag\<close>
  (any JSON value; \<open>None\<close> when the key is missing).
\<close>

datatype post_body = NotADict string | Dict "string option" "json option"

record 'f library =
  py_int :: "string \<Rightarrow> string + int"
  py_float :: "string \<Rightarrow> string + 'f"
  boto3_bedrock :: "aws_config \<Rightarrow> string + 'f bedrock_client"
  boto3_kendra :: "aws_config \<Rightarrow> string + kendra_client"
  json_loads :: "string \<Rightarrow> string + post_body"
  now_isoformat :: string

text \<open>What the loader writes: lines it prints and records it logs.\<close>

datatype written = Print string | LogInfo string | LogError string

text \<open>\<open>s[-4:]\<close>: the last four characters, the whole string when it is shorter.\<close>

definition last4 :: "string \<Rightarrow> string" where
  "last4 s = drop (length s - 4) s"

definition secret_display :: "environ \<Rightarrow> string" where
  "secret_display env =
     (if truthy (env ''AWS_SECRET_ACCESS_KEY'')
      then ''***'' @ last4 (getenv env ''AWS_SECRET_ACCESS_KEY'' ''NOT_FOUND'')
      else ''NOT_FOUND'')"

definition debug_prints :: "environ \<Rightarrow> written list" where
  "debug_prints env =
     [Print ''=== Environment Variables Debug ==='',
      Print (''AWS_ACCESS_KEY_ID: '' @ getenv env ''AWS_ACCESS_KEY_ID'' ''NOT_FOUND''),
      Print (''AWS_SECRET_ACCESS_KEY: '' @ secret_display env),
      Print (''AWS_REGION: '' @ getenv env ''AWS_REGION'' ''NOT_FOUND''),
      Print (''BEDROCK_MODEL_ID: '' @ getenv env ''BEDROCK_MODEL_ID'' ''NOT_FOUND''),
      Print (''KENDRA_INDEX_ID: '' @ getenv env ''KENDRA_INDEX_ID'' ''NOT_FOUND''),
      Print (replicate 35 CHR ''='')]"

definition read_aws_config :: "environ \<Rightarrow> aws_config" where
  "read_aws_config env =
     \<lparr>region_name = getenv env ''AWS_REGION'' ''us-east-1'',
      aws_access_key_id = env ''AWS_ACCESS_KEY_ID'',
      aws_secret_access_key = env ''AWS_SECRET_ACCESS_KEY''\<rparr>"

text \<open>
  The \<open>model_config\<close> dictionary; its values are evaluated in the order written, so a bad
  \<open>BEDROCK_MAX_TOKENS\<close> raises before \<open>BEDROCK_TEMPERATURE\<close> is read.
\<close>

definition read_model_config :: "'f library \<Rightarrow> environ \<Rightarrow> error + 'f model_config" where
  "read_model_config lb env =
     (case lib (py_int lb (getenv env ''BEDROCK_MAX_TOKENS'' ''2000'')) of
        Inl e \<Rightarrow> Inl e
      | Inr mt \<Rightarrow>
     (case lib (py_float lb (getenv env ''BEDROCK_TEMPERATURE'' ''0.7'')) of
        Inl e \<Rightarrow> Inl e
      | Inr temp \<Rightarrow>
     (case lib (py_float lb (getenv env ''KENDRA_MIN_CONFIDENCE_SCORE'' ''0.3'')) of
        Inl e \<Rightarrow> Inl e
      | Inr conf \<Rightarrow>
          Inr \<lparr>model_id = getenv env ''BEDROCK_MODEL_ID''
                            ''anthropic.claude-3-sonnet-20240229-v1:0'',
               max_tokens = mt,
               temperature = temp,
               kendra_index_id = getenv env ''KENDRA_INDEX_ID'' ''salespitch'',
               min_confidence_score = conf\<rparr>)))"

text \<open>The statements of the \<open>try\<close> block after the debug prints.\<close>

definition setup_aws_clients_try :: "'f library \<Rightarrow> environ \<Rightarrow> error + 'f bot" where
  "setup_aws_clients_try lb env =
     (let cfg = read_aws_config env
      in if \<not> truthy (aws_access_key_id cfg) \<or> \<not> truthy (aws_secret_access_key cfg)
         then Inl CredentialsNotFound
         else
           (case lib (boto3_bedrock lb cfg) of
              Inl e \<Rightarrow> Inl e
            | Inr bc \<Rightarrow>
           (case lib (boto3_kendra lb cfg) of
              Inl e \<Rightarrow> Inl e
            | Inr kc \<Rightarrow>
           (case read_model_config lb env of
              Inl e \<Rightarrow> Inl e
            | Inr mc \<Rightarrow>
                Inr \<lparr>aws_config = cfg, bedrock_client = bc, kendra_client = kc,
                     model_config = mc\<rparr>))))"

text \<open>
  \<open>setup_aws_clients\<close>: the output written, and the bot or the exception re-raised by
  the \<open>except\<close> clause.
\<close>

definition setup_aws_clients :: "'f library \<Rightarrow> environ \<Rightarrow> written list \<times> (error + 'f bot)" where
  "setup_aws_clients lb env =
     (case setup_aws_clients_try lb env of
        Inl e \<Rightarrow>
          (debug_prints env @ [LogError (''Error initializing AWS clients: '' @ str_of e)],
           Inl e)
      | Inr b \<Rightarrow>
          (debug_prints env @ [LogInfo ''AWS clients initialized successfully''], Inr b))"

text \<open>
  The diagnostic script \<open>test.py\<close> displays the same variables; its masking
  (\<open>display_value\<close> in \<open>test_environment_variables\<close>) covers every variable whose name
  contains \<open>SECRET\<close> or \<open>KEY\<close> and shows nothing of a value of four characters or fewer.
\<close>

definition display_value :: "string \<Rightarrow> string \<Rightarrow> string" where
  "display_value var_name v =
     (if sublist ''SECRET'' var_name \<or> sublist ''KEY'' var_name
      then (if length v > 4 then ''***'' @ last4 v else ''***'')
      else v)"

section \<open>The request handler: \<open>lambda_handler\<close>\<close>

text \<open>
  An event is a dictionary; a key the handler reads with \<open>.get(k, default)\<close> is absent,
  present with the value null, or present with a value. Query parameters are strings.
\<close>

datatype 'a entry = Absent | Null | Present 'a

record event =
  httpMethod :: "string option"
  body :: "string entry"
  queryStringParameters :: "(string \<times> string) list entry"

datatype payload = ErrorPayload string | AnswerPayload compliance_answer

text \<open>The response; \<open>payload\<close> is the dictionary given to \<open>json.dumps\<close> for the body.\<close>

record response =
  statusCode :: nat
  headers :: "(string \<times> string) list"
  payload :: payload

fun json_truthy :: "json \<Rightarrow> bool" where
  "json_truthy JNull = False"
| "json_truthy (JBool b) = b"
| "json_truthy (JInt i) = (i \<noteq> 0)"
| "json_truthy (JStr s) = (s \<noteq> [])"
| "json_truthy (JList xs) = (xs \<noteq> [])"
| "json_truthy (JDict kvs) = (kvs \<noteq> [])"

text \<open>
  \<open>str.lower\<close> on the letters \<open>A\<close> to \<open>Z\<close>; every other character is kept (a string is
  a list of bytes here, and no byte outside \<open>A\<close> to \<open>Z\<close> becomes an ASCII letter).
\<close>

definition lower_char :: "char \<Rightarrow> char" where
  "lower_char c =
     (let n = (of_char c :: nat) in if 65 \<le> n \<and> n \<le> 90 then char_of (n + 32) else c)"

definition lower :: "string \<Rightarrow> string" where
  "lower s = map lower_char s"

definition dict_get :: "(string \<times> 'a) list \<Rightarrow> string \<Rightarrow> 'a \<Rightarrow> 'a" where
  "dict_get d k dflt = (case map_of d k of None \<Rightarrow> dflt | Some v \<Rightarrow> v)"

definition none_has_no_get :: string where
  "none_has_no_get = quote ''NoneType'' @ '' object has no attribute '' @ quote ''get''"

text \<open>
  The \<open>if\<close>/\<open>else\<close> that extracts \<open>question\<close> and \<open>use_rag\<close>. \<open>event.get(k, default)\<close>
  gives the default only when the key is absent: a key present with null gives
  \<open>None\<close>, on which \<open>json.loads\<close> raises \<open>TypeError\<close> and \<open>.get\<close> raises \<open>AttributeError\<close>.
\<close>

definition extract_request :: "'f library \<Rightarrow> event \<Rightarrow> error + (string \<times> bool)" where
  "extract_request lb ev =
     (if httpMethod ev = Some ''POST''
      then
        (case body ev of
           Null \<Rightarrow>
             Inl (TypeError ''the JSON object must be str, bytes or bytearray, not NoneType'')
         | b \<Rightarrow>
             (case lib (json_loads lb (case b of Present s \<Rightarrow> s | _ \<Rightarrow> ''{}'')) of
                Inl e \<Rightarrow> Inl e
              | Inr (NotADict ty) \<Rightarrow>
                  Inl (AttributeError (quote ty @ '' object has no attribute '' @ quote ''get''))
              | Inr (Dict q u) \<Rightarrow>
                  Inr (case q of None \<Rightarrow> [] | Some s \<Rightarrow> s,
                       case u of None \<Rightarrow> True | Some j \<Rightarrow> json_truthy j)))
      else
        (case queryStringParameters ev of
           Null \<Rightarrow> Inl (AttributeError none_has_no_get)
         | p \<Rightarrow>
             (let params = (case p of Present d \<Rightarrow> d | _ \<Rightarrow> [])
              in Inr (dict_get params ''question'' [],
                      lower (dict_get params ''use_rag'' ''true'') = ''true''))))"

definition bad_request :: response where
  "bad_request =
     \<lparr>statusCode = 400,
      headers = [(''Content-Type'', ''application/json'')],
      payload = ErrorPayload ''Question parameter is required''\<rparr>"

definition ok :: "compliance_answer \<Rightarrow> response" where
  "ok result =
     \<lparr>statusCode = 200,
      headers = [(''Content-Type'', ''application/json''),
                 (''Access-Control-Allow-Origin'', ''*'')],
      payload = AnswerPayload result\<rparr>"

definition server_error :: "error \<Rightarrow> response" where
  "server_error e =
     \<lparr>statusCode = 500,
      headers = [(''Content-Type'', ''application/json'')],
      payload = ErrorPayload (''Internal server error: '' @ str_of e)\<rparr>"

text \<open>
  The body of the handler's \<open>try\<close> block: the bot is built first
  (\<open>ComplianceAssistantBot()\<close> runs \<open>setup_aws_clients\<close>; the catalogue of sample
  questions set up after it cannot fail), then the request is read.
\<close>

definition lambda_handler_try :: "'f library \<Rightarrow> environ \<Rightarrow> event \<Rightarrow> error + response" where
  "lambda_handler_try lb env ev =
     (case snd (setup_aws_clients lb env) of
        Inl e \<Rightarrow> Inl e
      | Inr b \<Rightarrow>
          (case extract_request lb ev of
             Inl e \<Rightarrow> Inl e
           | Inr (q, use_rag) \<Rightarrow>
               if q = [] then Inr bad_request
               else Inr (ok (get_compliance_answer b (now_isoformat lb) q use_rag))))"

definition lambda_handler :: "'f library \<Rightarrow> environ \<Rightarrow> event \<Rightarrow> response" where
  "lambda_handler lb env ev =
     (case lambda_handler_try lb env ev of Inl e \<Rightarrow> server_error e | Inr r \<Rightarrow> r)"

section \<open>Occurrences of a text in a prompt\<close>

text \<open>
  \<open>occurrences needle s\<close> is the number of positions of \<open>s\<close> at which \<open>needle\<close> starts;
  a text occurs exactly once in \<open>s\<close> when this number is 1.
\<close>

fun occurrences :: "string \<Rightarrow> string \<Rightarrow> nat" where
  "occurrences needle [] = (if needle = [] then 1 else 0)"
| "occurrences needle (c # cs) =
     (if prefix needle (c # cs) then 1 else 0) + occurrences needle cs"

section \<open>Concrete inputs\<close>

text \<open>
  Stub clients and inputs on which the functions above are evaluated. The float type is
  instantiated by \<open>string\<close>: a float is written as its literal.
\<close>

definition item :: "string \<Rightarrow> string \<Rightarrow> string \<Rightarrow> query_result_item" where
  "item c t ti =
     \<lparr>ScoreAttributes = Some \<lparr>ScoreConfidence = Some c\<rparr>,
      DocumentExcerpt = Some \<lparr>Text = Some t\<rparr>,
      DocumentTitle = Some \<lparr>Text = Some ti\<rparr>\<rparr>"

definition mixed_items :: "query_result_item list" where
  "mixed_items =
     [item ''HIGH'' ''a'' ''A'', item ''MEDIUM'' ''b'' ''B'', item ''HIGH'' ''c'' ''C'',
      item ''LOW'' ''d'' ''D'', item ''HIGH'' ''e'' ''E'']"

definition high_items :: "query_result_item list" where
  "high_items =
     [item ''HIGH'' ''a'' ''A'', item ''HIGH'' ''b'' ''B'', item ''HIGH'' ''c'' ''C'',
      item ''HIGH'' ''d'' ''D'', item ''HIGH'' ''e'' ''E'']"

definition sample_config :: "string model_config" where
  "sample_config =
     \<lparr>model_id = ''anthropic.claude-3-sonnet-20240229-v1:0'', max_tokens = 2000,
      temperature = ''0.7'', kendra_index_id = ''salespitch'',
      min_confidence_score = ''0.3''\<rparr>"

definition sample_aws :: aws_config where
  "sample_aws =
     \<lparr>region_name = ''us-east-1'', aws_access_key_id = Some ''AKIAYXT5S2A'',
      aws_secret_access_key = Some ''Lr4gYdA7m0+zZKvrH''\<rparr>"

definition answering :: "string bedrock_client" where
  "answering m rq ct = Inr \<lparr>content = Some [\<lparr>block_text = Some ''Answer text''\<rparr>]\<rparr>"

definition timing_out :: "string bedrock_client" where
  "timing_out m rq ct = Inl ''Read timeout''"

definition serving :: "query_result_item list \<Rightarrow> kendra_client" where
  "serving items i q n = Inr \<lparr>ResultItems = Some items\<rparr>"

definition unreachable :: kendra_client where
  "unreachable i q n = Inl ''Could not connect to the endpoint URL''"

definition sample_bot :: "string bedrock_client \<Rightarrow> kendra_client \<Rightarrow> string bot" where
  "sample_bot bc kc =
     \<lparr>aws_config = sample_aws, bedrock_client = bc, kendra_client = kc,
      model_config = sample_config\<rparr>"

text \<open>
  A library in which \<open>int\<close> and \<open>float\<close> accept the default literals, both clients can
  be built and \<open>json.loads\<close> decodes the empty object; and the environment of the sample
  file written by \<open>test.py\<close>, with the credential pair only.
\<close>

definition sample_library :: "string library" where
  "sample_library =
     \<lparr>py_int = (\<lambda>s. if s = ''2000'' then Inr 2000
                     else Inl (''invalid literal for int() with base 10: '' @ quote s)),
      py_float = (\<lambda>s. if s = ''0.7'' \<or> s = ''0.3'' then Inr s
                       else Inl (''could not convert string to float: '' @ quote s)),
      boto3_bedrock = (\<lambda>cfg. Inr answering),
      boto3_kendra = (\<lambda>cfg. Inr (serving mixed_items)),
      json_loads = (\<lambda>s. if s = ''{}'' then Inr (Dict None None)
                         else Inl ''Expecting value: line 1 column 1 (char 0)''),
      now_isoformat = ''2026-01-01T00:00:00''\<rparr>"

definition sample_env :: environ where
  "sample_env =
     [''AWS_ACCESS_KEY_ID'' \<mapsto> ''AKIAYXT5S2A'',
      ''AWS_SECRET_ACCESS_KEY'' \<mapsto> ''Lr4gYdA7m0+zZKvrH'']"

definition short_secret_env :: environ where
  "short_secret_env =
     [''AWS_ACCESS_KEY_ID'' \<mapsto> ''AKIAYXT5S2A'', ''AWS_SECRET_ACCESS_KEY'' \<mapsto> ''abcd'']"

text \<open>
  Two GET events as the API gateway delivers them: without a query string (the
  parameters are null) and with the parameters \<open>d\<close>.
\<close>

definition get_without_query :: event where
  "get_without_query =
     \<lparr>httpMethod = Some ''GET'', body = Null, queryStringParameters = Null\<rparr>"

definition get_with_query :: "(string \<times> string) list \<Rightarrow> event" where
  "get_with_query d =
     \<lparr>httpMethod = Some ''GET'', body = Null, queryStringParameters = Present d\<rparr>"

section \<open>Retrieval keeps the HIGH results\<close>

lemma relevant_results_acc:
  "relevant_results rs acc =
     acc @ map excerpt_of (filter (\<lambda>r. score_confidence r = Some ''HIGH'') rs)"
  by (induction rs arbitrary: acc) simp_all

lemma excerpt_of_high:
  "score_confidence r = Some ''HIGH'' \<Longrightarrow> r_confidence (excerpt_of r) = ''HIGH''"
  by (simp add: excerpt_of_def)

lemma kept_high:
  "list_all (\<lambda>e. r_confidence e = ''HIGH'')
     (map excerpt_of (filter (\<lambda>r. score_confidence r = Some ''HIGH'') rs))"
  by (induction rs) (simp_all add: excerpt_of_high)

text \<open>
  Claim C1. Whenever the search service answers (with any number of candidates, so also
  with at most five), \<open>query_kendra_rag\<close> returns the excerpts of exactly the candidates
  whose \<open>ScoreConfidence\<close> is \<open>HIGH\<close>, in the order of the response; every other label,
  and a missing label, is dropped. When no candidate is kept the result is \<open>None\<close>
  ("no results"). Each returned excerpt carries the label \<open>HIGH\<close>.
\<close>

theorem query_kendra_rag_keeps_high:
  assumes "kendra_client b (kendra_index_id (model_config b)) q 5 = Inr response"
  shows "query_kendra_rag b q =
           (if filter (\<lambda>r. score_confidence r = Some ''HIGH'') (result_items response) = []
            then None
            else Some (map excerpt_of
                   (filter (\<lambda>r. score_confidence r = Some ''HIGH'') (result_items response))))
         \<and> list_all (\<lambda>e. r_confidence e = ''HIGH'')
              (case query_kendra_rag b q of None \<Rightarrow> [] | Some kept \<Rightarrow> kept)"
proof -
  have eq: "query_kendra_rag b q =
           (if filter (\<lambda>r. score_confidence r = Some ''HIGH'') (result_items response) = []
            then None
            else Some (map excerpt_of
                   (filter (\<lambda>r. score_confidence r = Some ''HIGH'') (result_items response))))"
    using assms by (simp add: query_kendra_rag_def relevant_results_acc)
  show ?thesis
    using eq kept_high [of "result_items response"] by simp
qed

theorem query_kendra_rag_keeps_high_witness:
  "query_kendra_rag (sample_bot answering (serving mixed_items)) ''What is KYC?'' =
     Some [\<lparr>r_text = ''a'', r_title = ''A'', r_confidence = ''HIGH''\<rparr>,
           \<lparr>r_text = ''c'', r_title = ''C'', r_confidence = ''HIGH''\<rparr>,
           \<lparr>r_text = ''e'', r_title = ''E'', r_confidence = ''HIGH''\<rparr>]"
proof -
  have h: "kendra_client (sample_bot answering (serving mixed_items))
             (kendra_index_id (model_config (sample_bot answering (serving mixed_items))))
             ''What is KYC?'' 5 = Inr \<lparr>ResultItems = Some mixed_items\<rparr>"
    by (simp add: sample_bot_def serving_def)
  show ?thesis
    using query_kendra_rag_keeps_high [OF h]
    by (simp add: mixed_items_def item_def result_items_def score_confidence_def
        excerpt_of_def text_of_def)
qed

section \<open>The orchestrator\<close>

lemma query_kendra_rag_Some:
  "query_kendra_rag b q = Some rs \<Longrightarrow> rs \<noteq> [] \<and> list_all (\<lambda>e. r_confidence e = ''HIGH'') rs"
  by (auto simp: query_kendra_rag_def relevant_results_acc kept_high Let_def
      split: sum.splits if_splits)

lemma rag_context_used: "snd (rag_context kr) = (\<exists>rs. kr = Some rs \<and> rs \<noteq> [])"
  by (auto simp: rag_context_def split: option.splits list.splits)

lemma rag_context_None [simp]: "rag_context None = (None, False)"
  by (simp add: rag_context_def)

lemma get_compliance_answer_fields:
  "get_compliance_answer b now q use_rag =
     \<lparr>question = q,
      answer = query_bedrock_llm b
                 (create_compliance_prompt q (fst (rag_context (retrieve b q use_rag)))),
      rag_used = snd (rag_context (retrieve b q use_rag)),
      context_sources = (if snd (rag_context (retrieve b q use_rag))
                         then retrieve b q use_rag else None),
      timestamp = now\<rparr>"
  by (simp add: get_compliance_answer_def get_compliance_answer_try_def Let_def
      split: prod.splits)

lemma retrieve_used:
  "snd (rag_context (retrieve b q use_rag)) = (use_rag \<and> query_kendra_rag b q \<noteq> None)"
  by (auto simp: rag_context_used retrieve_def dest: query_kendra_rag_Some)

lemma build_context_first3:
  assumes "4 \<le> length rs"
  shows "build_context rs =
           ''- '' @ r_text (rs ! 0) @ ''\<newline>'' @
           ''- '' @ r_text (rs ! 1) @ ''\<newline>'' @
           ''- '' @ r_text (rs ! 2)"
proof -
  obtain a b c d rest where "rs = a # b # c # d # rest"
    using assms by (auto simp: Suc_le_length_iff numeral_eq_Suc)
  then show ?thesis by (simp add: build_context_def)
qed

text \<open>
  Claim C2. In every answer of \<open>get_compliance_answer\<close>, \<open>context_sources\<close> is present
  exactly when \<open>rag_used\<close> is true and the retrieval step ran and returned at least one
  excerpt, all of confidence \<open>HIGH\<close>. Both directions are stated about the retrieval
  itself: \<open>rag_used\<close> is true exactly when retrieval was asked for and returned
  excerpts, and the sources are the retrieved list under \<open>rag_used\<close> and absent
  otherwise. The clients of the bot are arbitrary, so the statement covers a failing
  search and a failing generation; the record built by the \<open>except\<close> clause has
  \<open>rag_used = False\<close> and no sources.
\<close>

theorem sources_iff_rag_used:
  "((context_sources (get_compliance_answer b now q use_rag) \<noteq> None) =
      (rag_used (get_compliance_answer b now q use_rag) \<and> use_rag \<and>
       (\<exists>rs. query_kendra_rag b q = Some rs \<and> rs \<noteq> [] \<and>
             list_all (\<lambda>e. r_confidence e = ''HIGH'') rs)))
   \<and> rag_used (get_compliance_answer b now q use_rag) =
       (use_rag \<and> query_kendra_rag b q \<noteq> None)
   \<and> context_sources (get_compliance_answer b now q use_rag) =
       (if rag_used (get_compliance_answer b now q use_rag)
        then query_kendra_rag b q else None)"
proof -
  let ?a = "get_compliance_answer b now q use_rag"
  have used: "rag_used ?a = (use_rag \<and> query_kendra_rag b q \<noteq> None)"
    by (simp add: get_compliance_answer_fields retrieve_used)
  have src: "context_sources ?a = (if rag_used ?a then query_kendra_rag b q else None)"
    by (simp add: get_compliance_answer_fields retrieve_used retrieve_def)
  have "(context_sources ?a \<noteq> None) =
          (rag_used ?a \<and> use_rag \<and>
           (\<exists>rs. query_kendra_rag b q = Some rs \<and> rs \<noteq> [] \<and>
                 list_all (\<lambda>e. r_confidence e = ''HIGH'') rs))"
    unfolding src used by (auto dest: query_kendra_rag_Some)
  then show ?thesis
    using used src by blast
qed

theorem sources_iff_rag_used_witness:
  "get_compliance_answer (sample_bot answering (serving [item ''HIGH'' ''a'' ''A'']))
     ''2026-01-01T00:00:00'' ''What are STR reporting requirements?'' True =
     \<lparr>question = ''What are STR reporting requirements?'', answer = ''Answer text'',
      rag_used = True,
      context_sources = Some [\<lparr>r_text = ''a'', r_title = ''A'', r_confidence = ''HIGH''\<rparr>],
      timestamp = ''2026-01-01T00:00:00''\<rparr>
   \<and> context_sources (get_compliance_answer (sample_bot answering (serving []))
        ''2026-01-01T00:00:00'' ''What are STR reporting requirements?'' True) = None
   \<and> \<not> rag_used (get_compliance_answer (sample_bot answering (serving []))
        ''2026-01-01T00:00:00'' ''What are STR reporting requirements?'' True)"
proof -
  let ?q = "''What are STR reporting requirements?''"
  have k1: "query_kendra_rag (sample_bot answering (serving [item ''HIGH'' ''a'' ''A''])) ?q =
            Some [\<lparr>r_text = ''a'', r_title = ''A'', r_confidence = ''HIGH''\<rparr>]"
    by (simp add: query_kendra_rag_def sample_bot_def serving_def result_items_def item_def
        score_confidence_def excerpt_of_def text_of_def)
  have k0: "query_kendra_rag (sample_bot answering (serving [])) ?q = None"
    by (simp add: query_kendra_rag_def sample_bot_def serving_def result_items_def)
  have a: "query_bedrock_llm (sample_bot answering kc) p = ''Answer text''" for kc p
    by (simp add: query_bedrock_llm_def invoke_def sample_bot_def answering_def lib_def
        first_text_def)
  show ?thesis
    using sources_iff_rag_used [of "sample_bot answering (serving [item ''HIGH'' ''a'' ''A''])"
        "''2026-01-01T00:00:00''" ?q True]
      sources_iff_rag_used [of "sample_bot answering (serving [])"
        "''2026-01-01T00:00:00''" ?q True]
      k1 k0 a
    by (simp add: get_compliance_answer_fields retrieve_def rag_context_def)
qed

text \<open>
  Claim C3. When the generation step fails (the client raises, or the response lacks
  \<open>content\<close>, a first block or its \<open>text\<close>), \<open>get_compliance_answer\<close> still returns an
  answer record: its \<open>answer\<close> is the apology followed by the message of the failure, so
  it is not empty and contains the message, and \<open>rag_used\<close> is what retrieval decided:
  true exactly when retrieval was asked for and returned excerpts.
\<close>

theorem generation_failure_is_answer_text:
  assumes "invoke b (create_compliance_prompt q (fst (rag_context (retrieve b q use_rag)))) = Inl e"
  shows "answer (get_compliance_answer b now q use_rag) = apology @ str_of e
       \<and> answer (get_compliance_answer b now q use_rag) \<noteq> []
       \<and> sublist (str_of e) (answer (get_compliance_answer b now q use_rag))
       \<and> rag_used (get_compliance_answer b now q use_rag) =
           (use_rag \<and> query_kendra_rag b q \<noteq> None)"
proof -
  have a: "answer (get_compliance_answer b now q use_rag) = apology @ str_of e"
    using assms by (simp add: get_compliance_answer_fields query_bedrock_llm_def)
  have ne: "apology \<noteq> []"
    by (simp add: apology_def)
  show ?thesis
    using a ne by (simp add: get_compliance_answer_fields retrieve_used)
qed

theorem generation_failure_is_answer_text_witness:
  "answer (get_compliance_answer (sample_bot timing_out (serving mixed_items))
             ''2026-01-01T00:00:00'' ''What is KYC?'' True) =
     ''I apologize, but I encountered an error while processing your question: Read timeout''
   \<and> rag_used (get_compliance_answer (sample_bot timing_out (serving mixed_items))
             ''2026-01-01T00:00:00'' ''What is KYC?'' True)"
proof -
  let ?b = "sample_bot timing_out (serving mixed_items)"
  have k: "query_kendra_rag ?b ''What is KYC?'' \<noteq> None"
    by (simp add: query_kendra_rag_def sample_bot_def serving_def result_items_def
        mixed_items_def item_def score_confidence_def)
  have h: "invoke ?b (create_compliance_prompt ''What is KYC?''
             (fst (rag_context (retrieve ?b ''What is KYC?'' True)))) =
           Inl (LibraryError ''Read timeout'')"
    by (simp add: invoke_def sample_bot_def timing_out_def lib_def)
  show ?thesis
    using generation_failure_is_answer_text [OF h, of "''2026-01-01T00:00:00''"] k
    by (simp add: apology_def)
qed

text \<open>
  Claim C4. When the call to the search service raises, \<open>query_kendra_rag\<close> returns
  \<open>None\<close> ("no results"); the orchestrator then has \<open>rag_used = False\<close>, no sources and
  no context, and the answer is the model's reply to the prompt built without context,
  which has no context block.
\<close>

theorem retrieval_failure_is_no_results:
  assumes "kendra_client b (kendra_index_id (model_config b)) q 5 = Inl m"
  shows "query_kendra_rag b q = None
       \<and> rag_used (get_compliance_answer b now q use_rag) = False
       \<and> context_sources (get_compliance_answer b now q use_rag) = None
       \<and> fst (rag_context (retrieve b q use_rag)) = None
       \<and> answer (get_compliance_answer b now q use_rag) =
           query_bedrock_llm b (create_compliance_prompt q None)
       \<and> create_compliance_prompt q None = prompt_head @ q @ ''\<newline>\<newline>'' @ prompt_tail"
proof -
  have n: "query_kendra_rag b q = None"
    using assms by (simp add: query_kendra_rag_def)
  then have r: "retrieve b q use_rag = None"
    by (simp add: retrieve_def)
  show ?thesis
    using n r by (simp add: get_compliance_answer_fields create_compliance_prompt_def)
qed

theorem retrieval_failure_is_no_results_witness:
  "query_kendra_rag (sample_bot answering unreachable) ''What is KYC?'' = None
   \<and> rag_used (get_compliance_answer (sample_bot answering unreachable)
        ''2026-01-01T00:00:00'' ''What is KYC?'' True) = False
   \<and> answer (get_compliance_answer (sample_bot answering unreachable)
        ''2026-01-01T00:00:00'' ''What is KYC?'' True) = ''Answer text''"
proof -
  let ?b = "sample_bot answering unreachable"
  have h: "kendra_client ?b (kendra_index_id (model_config ?b)) ''What is KYC?'' 5 =
           Inl ''Could not connect to the endpoint URL''"
    by (simp add: sample_bot_def unreachable_def)
  have a: "query_bedrock_llm ?b (create_compliance_prompt ''What is KYC?'' None) = ''Answer text''"
    by (simp add: query_bedrock_llm_def invoke_def sample_bot_def answering_def lib_def
        first_text_def)
  show ?thesis
    using retrieval_failure_is_no_results [OF h, of "''2026-01-01T00:00:00''" True] a
    by simp
qed

text \<open>
  Claim C5. When retrieval returns four or more excerpts, the context handed to
  \<open>create_compliance_prompt\<close> is made of the texts of the first three only, each after
  \<open>"- "\<close>, joined by newlines; the answer is the model's reply to the prompt built with
  that context.
\<close>

theorem context_uses_first_three:
  assumes "query_kendra_rag b q = Some rs" and "4 \<le> length rs"
  shows "fst (rag_context (retrieve b q True)) =
           Some (''- '' @ r_text (rs ! 0) @ ''\<newline>'' @
                 ''- '' @ r_text (rs ! 1) @ ''\<newline>'' @
                 ''- '' @ r_text (rs ! 2))
       \<and> answer (get_compliance_answer b now q True) =
           query_bedrock_llm b (create_compliance_prompt q
             (Some (''- '' @ r_text (rs ! 0) @ ''\<newline>'' @
                    ''- '' @ r_text (rs ! 1) @ ''\<newline>'' @
                    ''- '' @ r_text (rs ! 2))))"
proof -
  obtain r rest where rs: "rs = r # rest"
    using assms(2) by (cases rs) auto
  have "rag_context (Some rs) = (Some (build_context rs), True)"
    by (simp add: rag_context_def rs)
  then have c: "fst (rag_context (retrieve b q True)) = Some (build_context rs)"
    using assms(1) by (simp add: retrieve_def)
  show ?thesis
    using c build_context_first3 [OF assms(2)]
    by (simp add: get_compliance_answer_fields)
qed

theorem context_uses_first_three_witness:
  "fst (rag_context (retrieve (sample_bot answering (serving high_items)) ''What is KYC?'' True)) =
     Some ''- a\<newline>- b\<newline>- c''"
proof -
  let ?b = "sample_bot answering (serving high_items)"
  let ?rs = "map excerpt_of high_items"
  have h1: "query_kendra_rag ?b ''What is KYC?'' = Some ?rs"
    by (simp add: query_kendra_rag_def sample_bot_def serving_def result_items_def
        high_items_def item_def score_confidence_def)
  have h2: "4 \<le> length ?rs"
    by (simp add: high_items_def)
  show ?thesis
    using context_uses_first_three [OF h1 h2, of "''2026-01-01T00:00:00''"]
    by (simp add: high_items_def item_def excerpt_of_def text_of_def)
qed

section \<open>The configuration loader\<close>

lemma lib_simps [simp]:
  "lib (Inl m) = Inl (LibraryError m)" "lib (Inr v) = Inr v"
  by (simp_all add: lib_def)

lemma lib_not_credentials [simp]: "lib r \<noteq> Inl CredentialsNotFound"
  by (cases r) simp_all

lemma read_model_config_not_credentials [simp]:
  "read_model_config lb env \<noteq> Inl CredentialsNotFound"
  by (auto simp: read_model_config_def lib_def split: sum.splits)

lemma setup_try_credentials:
  "(setup_aws_clients_try lb env = Inl CredentialsNotFound) =
     (\<not> truthy (env ''AWS_ACCESS_KEY_ID'') \<or> \<not> truthy (env ''AWS_SECRET_ACCESS_KEY''))"
  by (auto simp: setup_aws_clients_try_def read_aws_config_def Let_def lib_def
      split: sum.splits)

lemma snd_setup [simp]: "snd (setup_aws_clients lb env) = setup_aws_clients_try lb env"
  by (simp add: setup_aws_clients_def split: sum.splits)

lemma read_model_config_Inr:
  assumes "read_model_config lb env = Inr mc"
  shows "model_id mc = getenv env ''BEDROCK_MODEL_ID'' ''anthropic.claude-3-sonnet-20240229-v1:0''"
    and "py_int lb (getenv env ''BEDROCK_MAX_TOKENS'' ''2000'') = Inr (max_tokens mc)"
    and "py_float lb (getenv env ''BEDROCK_TEMPERATURE'' ''0.7'') = Inr (temperature mc)"
    and "kendra_index_id mc = getenv env ''KENDRA_INDEX_ID'' ''salespitch''"
    and "py_float lb (getenv env ''KENDRA_MIN_CONFIDENCE_SCORE'' ''0.3'') = Inr (min_confidence_score mc)"
  using assms by (auto simp: read_model_config_def lib_def split: sum.splits)

lemma setup_try_Inr:
  assumes "setup_aws_clients_try lb env = Inr b"
  shows "aws_config b = read_aws_config env"
    and "read_model_config lb env = Inr (model_config b)"
    and "boto3_bedrock lb (read_aws_config env) = Inr (bedrock_client b)"
    and "boto3_kendra lb (read_aws_config env) = Inr (kendra_client b)"
  using assms
  by (auto simp: setup_aws_clients_try_def Let_def lib_def split: sum.splits if_splits)

lemma setup_try_model_config:
  assumes "setup_aws_clients_try lb env = Inr b"
  shows "model_id (model_config b) =
           getenv env ''BEDROCK_MODEL_ID'' ''anthropic.claude-3-sonnet-20240229-v1:0''"
    and "py_int lb (getenv env ''BEDROCK_MAX_TOKENS'' ''2000'') = Inr (max_tokens (model_config b))"
    and "py_float lb (getenv env ''BEDROCK_TEMPERATURE'' ''0.7'') =
           Inr (temperature (model_config b))"
    and "kendra_index_id (model_config b) = getenv env ''KENDRA_INDEX_ID'' ''salespitch''"
    and "py_float lb (getenv env ''KENDRA_MIN_CONFIDENCE_SCORE'' ''0.3'') =
           Inr (min_confidence_score (model_config b))"
  using read_model_config_Inr [OF setup_try_Inr(2) [OF assms]] by simp_all

lemma getenv_absent [simp]: "env k = None \<Longrightarrow> getenv env k d = d"
  by (simp add: getenv_def)

lemma sample_env_simps:
  "sample_env ''AWS_ACCESS_KEY_ID'' = Some ''AKIAYXT5S2A''"
  "sample_env ''AWS_SECRET_ACCESS_KEY'' = Some ''Lr4gYdA7m0+zZKvrH''"
  "sample_env ''AWS_REGION'' = None"
  "sample_env ''BEDROCK_MODEL_ID'' = None"
  "sample_env ''BEDROCK_MAX_TOKENS'' = None"
  "sample_env ''BEDROCK_TEMPERATURE'' = None"
  "sample_env ''KENDRA_INDEX_ID'' = None"
  "sample_env ''KENDRA_MIN_CONFIDENCE_SCORE'' = None"
  by (simp_all add: sample_env_def)

lemma setup_sample:
  "setup_aws_clients_try sample_library sample_env = Inr (sample_bot answering (serving mixed_items))"
  by (simp add: setup_aws_clients_try_def read_model_config_def read_aws_config_def Let_def
      sample_env_simps getenv_def sample_library_def sample_bot_def sample_config_def
      sample_aws_def)

text \<open>
  With both credentials present the loader can still fail, on a malformed number or in
  \<open>boto3.client\<close>, but then with the library's exception, never with the credentials
  error.
\<close>

lemma setup_malformed_max_tokens:
  assumes "truthy (env ''AWS_ACCESS_KEY_ID'')" and "truthy (env ''AWS_SECRET_ACCESS_KEY'')"
    and "boto3_bedrock lb (read_aws_config env) = Inr bc"
    and "boto3_kendra lb (read_aws_config env) = Inr kc"
    and "py_int lb (getenv env ''BEDROCK_MAX_TOKENS'' ''2000'') = Inl m"
  shows "snd (setup_aws_clients lb env) = Inl (LibraryError m)"
  using assms
  by (simp add: setup_aws_clients_try_def read_model_config_def read_aws_config_def Let_def)

text \<open>
  Claim C6. \<open>setup_aws_clients\<close> fails with the credentials error (the specification's
  ConfigurationError) exactly when \<open>AWS_ACCESS_KEY_ID\<close> or \<open>AWS_SECRET_ACCESS_KEY\<close> is
  missing or empty. When it returns a bot, each setting whose variable is absent has its
  default: region \<open>us-east-1\<close>, the Claude 3 Sonnet model id, index \<open>salespitch\<close>, and
  for the numbers what \<open>int\<close> and \<open>float\<close> make of the literals \<open>2000\<close>, \<open>0.7\<close> and
  \<open>0.3\<close>. With both credentials present it does return a bot whenever the two clients
  can be built and the three numbers parse.
\<close>

theorem setup_aws_clients_credentials_and_defaults:
  "((snd (setup_aws_clients lb env) = Inl CredentialsNotFound) =
      (\<not> truthy (env ''AWS_ACCESS_KEY_ID'') \<or> \<not> truthy (env ''AWS_SECRET_ACCESS_KEY'')))
   \<and> (\<forall>b. snd (setup_aws_clients lb env) = Inr b \<longrightarrow>
        (env ''AWS_REGION'' = None \<longrightarrow> region_name (aws_config b) = ''us-east-1'') \<and>
        (env ''BEDROCK_MODEL_ID'' = None \<longrightarrow>
           model_id (model_config b) = ''anthropic.claude-3-sonnet-20240229-v1:0'') \<and>
        (env ''BEDROCK_MAX_TOKENS'' = None \<longrightarrow>
           py_int lb ''2000'' = Inr (max_tokens (model_config b))) \<and>
        (env ''BEDROCK_TEMPERATURE'' = None \<longrightarrow>
           py_float lb ''0.7'' = Inr (temperature (model_config b))) \<and>
        (env ''KENDRA_INDEX_ID'' = None \<longrightarrow>
           kendra_index_id (model_config b) = ''salespitch'') \<and>
        (env ''KENDRA_MIN_CONFIDENCE_SCORE'' = None \<longrightarrow>
           py_float lb ''0.3'' = Inr (min_confidence_score (model_config b))))
   \<and> (\<forall>bc kc mt temp conf.
        truthy (env ''AWS_ACCESS_KEY_ID'') \<and> truthy (env ''AWS_SECRET_ACCESS_KEY'') \<and>
        boto3_bedrock lb (read_aws_config env) = Inr bc \<and>
        boto3_kendra lb (read_aws_config env) = Inr kc \<and>
        py_int lb (getenv env ''BEDROCK_MAX_TOKENS'' ''2000'') = Inr mt \<and>
        py_float lb (getenv env ''BEDROCK_TEMPERATURE'' ''0.7'') = Inr temp \<and>
        py_float lb (getenv env ''KENDRA_MIN_CONFIDENCE_SCORE'' ''0.3'') = Inr conf \<longrightarrow>
        (\<exists>b. snd (setup_aws_clients lb env) = Inr b))"
proof (intro conjI allI impI)
  show "(snd (setup_aws_clients lb env) = Inl CredentialsNotFound) =
      (\<not> truthy (env ''AWS_ACCESS_KEY_ID'') \<or> \<not> truthy (env ''AWS_SECRET_ACCESS_KEY''))"
    by (simp add: setup_try_credentials)
next
  fix b assume "snd (setup_aws_clients lb env) = Inr b" and "env ''AWS_REGION'' = None"
  then show "region_name (aws_config b) = ''us-east-1''"
    by (simp add: setup_try_Inr(1) read_aws_config_def)
next
  fix b assume "snd (setup_aws_clients lb env) = Inr b" and "env ''BEDROCK_MODEL_ID'' = None"
  then show "model_id (model_config b) = ''anthropic.claude-3-sonnet-20240229-v1:0''"
    using setup_try_model_config(1) [of lb env b] by simp
next
  fix b assume "snd (setup_aws_clients lb env) = Inr b" and "env ''BEDROCK_MAX_TOKENS'' = None"
  then show "py_int lb ''2000'' = Inr (max_tokens (model_config b))"
    using setup_try_model_config(2) [of lb env b] by simp
next
  fix b assume "snd (setup_aws_clients lb env) = Inr b" and "env ''BEDROCK_TEMPERATURE'' = None"
  then show "py_float lb ''0.7'' = Inr (temperature (model_config b))"
    using setup_try_model_config(3) [of lb env b] by simp
next
  fix b assume "snd (setup_aws_clients lb env) = Inr b" and "env ''KENDRA_INDEX_ID'' = None"
  then show "kendra_index_id (model_config b) = ''salespitch''"
    using setup_try_model_config(4) [of lb env b] by simp
next
  fix b assume "snd (setup_aws_clients lb env) = Inr b"
    and "env ''KENDRA_MIN_CONFIDENCE_SCORE'' = None"
  then show "py_float lb ''0.3'' = Inr (min_confidence_score (model_config b))"
    using setup_try_model_config(5) [of lb env b] by simp
next
  fix bc kc mt temp conf
  assume "truthy (env ''AWS_ACCESS_KEY_ID'') \<and> truthy (env ''AWS_SECRET_ACCESS_KEY'') \<and>
        boto3_bedrock lb (read_aws_config env) = Inr bc \<and>
        boto3_kendra lb (read_aws_config env) = Inr kc \<and>
        py_int lb (getenv env ''BEDROCK_MAX_TOKENS'' ''2000'') = Inr mt \<and>
        py_float lb (getenv env ''BEDROCK_TEMPERATURE'' ''0.7'') = Inr temp \<and>
        py_float lb (getenv env ''KENDRA_MIN_CONFIDENCE_SCORE'' ''0.3'') = Inr conf"
  then show "\<exists>b. snd (setup_aws_clients lb env) = Inr b"
    by (simp add: setup_aws_clients_try_def read_model_config_def read_aws_config_def Let_def)
qed

theorem setup_aws_clients_credentials_and_defaults_witness:
  "snd (setup_aws_clients sample_library Map.empty) = Inl CredentialsNotFound
   \<and> snd (setup_aws_clients sample_library sample_env) =
       Inr (sample_bot answering (serving mixed_items))
   \<and> max_tokens (model_config (sample_bot answering (serving mixed_items))) = 2000
   \<and> region_name (aws_config (sample_bot answering (serving mixed_items))) = ''us-east-1''"
  using setup_aws_clients_credentials_and_defaults [of sample_library Map.empty]
    setup_aws_clients_credentials_and_defaults [of sample_library sample_env]
    setup_sample
  by (simp add: sample_env_simps sample_bot_def sample_config_def sample_aws_def)

section \<open>The prompt builder\<close>

lemma occurrences_at: "1 \<le> occurrences n (n @ b)"
proof (cases "n @ b")
  case Nil
  then show ?thesis by simp
next
  case (Cons x xs)
  have "prefix n (n @ b)" by simp
  then have "prefix n (x # xs)" using Cons by simp
  then show ?thesis using Cons by simp
qed

lemma occurrences_infix: "1 \<le> occurrences n (a @ n @ b)"
proof (induction a)
  case Nil
  show ?case using occurrences_at by simp
next
  case (Cons x a)
  then show ?case by simp
qed

text \<open>
  Claim C7, as stated: for every question and present context the prompt contains each
  of them exactly once. It fails for the question \<open>KYC\<close> with the context \<open>AML\<close>: both
  words also stand in the first sentence of the template, so each occurs twice.
\<close>

theorem prompt_not_exactly_once:
  "occurrences ''KYC'' (create_compliance_prompt ''KYC'' (Some ''AML'')) = 2
   \<and> occurrences ''AML'' (create_compliance_prompt ''KYC'' (Some ''AML'')) = 2"
  by code_simp

text \<open>
  Claim C7, amended. \<open>create_compliance_prompt\<close> is a function of its two arguments
  alone. For every question \<open>q\<close> and non-empty context \<open>c\<close> the prompt is the fixed
  template with \<open>q\<close> in its one question slot and \<open>c\<close> in its one context slot, so it
  contains both texts, each at least once. With an absent context and with an empty one
  the context block is left out: the prompt is the template with \<open>q\<close> alone.
\<close>

theorem create_compliance_prompt_slots:
  assumes "c \<noteq> []"
  shows "create_compliance_prompt q (Some c) =
           prompt_head @ q @ ''\<newline>\<newline>Additional Context: '' @ c @ prompt_tail
       \<and> create_compliance_prompt q None = prompt_head @ q @ ''\<newline>\<newline>'' @ prompt_tail
       \<and> create_compliance_prompt q (Some []) =
           prompt_head @ q @ ''\<newline>\<newline>'' @ prompt_tail
       \<and> 1 \<le> occurrences q (create_compliance_prompt q (Some c))
       \<and> 1 \<le> occurrences c (create_compliance_prompt q (Some c))"
proof -
  have p: "create_compliance_prompt q (Some c) =
           prompt_head @ q @ ''\<newline>\<newline>Additional Context: '' @ c @ prompt_tail"
    using assms by (simp add: create_compliance_prompt_def)
  have n: "create_compliance_prompt q None = prompt_head @ q @ ''\<newline>\<newline>'' @ prompt_tail"
    by (simp add: create_compliance_prompt_def)
  have e: "create_compliance_prompt q (Some []) =
           prompt_head @ q @ ''\<newline>\<newline>'' @ prompt_tail"
    by (simp add: create_compliance_prompt_def)
  have q: "1 \<le> occurrences q (create_compliance_prompt q (Some c))"
    unfolding p by (rule occurrences_infix)
  have "1 \<le> occurrences c
          ((prompt_head @ q @ ''\<newline>\<newline>Additional Context: '') @ c @ prompt_tail)"
    by (rule occurrences_infix)
  then have c: "1 \<le> occurrences c (create_compliance_prompt q (Some c))"
    unfolding p by simp
  show ?thesis
    using p n e q c by blast
qed

theorem create_compliance_prompt_slots_witness:
  "1 \<le> occurrences ''What is KYC?'' (create_compliance_prompt ''What is KYC?'' (Some ''- a''))
   \<and> 1 \<le> occurrences ''- a'' (create_compliance_prompt ''What is KYC?'' (Some ''- a''))
   \<and> create_compliance_prompt ''What is KYC?'' (Some []) =
       create_compliance_prompt ''What is KYC?'' None"
proof -
  have h: "''- a'' \<noteq> []" by simp
  note t = create_compliance_prompt_slots [OF h, of "''What is KYC?''"]
  have o: "1 \<le> occurrences ''What is KYC?''
              (create_compliance_prompt ''What is KYC?'' (Some ''- a''))
         \<and> 1 \<le> occurrences ''- a''
              (create_compliance_prompt ''What is KYC?'' (Some ''- a''))"
    using t by blast
  have n: "create_compliance_prompt ''What is KYC?'' None =
           prompt_head @ ''What is KYC?'' @ ''\<newline>\<newline>'' @ prompt_tail"
    using t by blast
  have e: "create_compliance_prompt ''What is KYC?'' (Some []) =
           prompt_head @ ''What is KYC?'' @ ''\<newline>\<newline>'' @ prompt_tail"
    using t by blast
  show ?thesis
    using o n e by (simp only:)
qed

section \<open>What the loader prints\<close>

text \<open>The masking of \<open>test.py\<close> on the same values.\<close>

lemma display_value_examples:
  "display_value ''AWS_ACCESS_KEY_ID'' ''AKIAYXT5S2A'' = ''***5S2A''"
  "display_value ''AWS_SECRET_ACCESS_KEY'' ''abcd'' = ''***''"
  by code_simp+

text \<open>
  Claim C8 says that no credential is printed in full. With the credential pair of the
  sample file, \<open>setup_aws_clients\<close> prints the access key id unmasked, whatever the
  library does afterwards; and a secret of four characters is printed whole after the
  three stars. \<open>test.py\<close> masks both (lemma \<open>display_value_examples\<close>).
\<close>

theorem setup_aws_clients_prints_credentials:
  "Print ''AWS_ACCESS_KEY_ID: AKIAYXT5S2A'' \<in> set (fst (setup_aws_clients lb sample_env))
   \<and> Print ''AWS_SECRET_ACCESS_KEY: ***abcd'' \<in> set (fst (setup_aws_clients lb short_secret_env))"
  by (simp add: setup_aws_clients_def debug_prints_def secret_display_def getenv_def last4_def
      sample_env_def short_secret_env_def split: sum.splits)

section \<open>The request handler\<close>

lemma lambda_handler_status:
  assumes "snd (setup_aws_clients lb env) = Inr b" and "extract_request lb ev = Inr (q, u)"
  shows "lambda_handler lb env ev =
           (if q = [] then bad_request
            else ok (get_compliance_answer b (now_isoformat lb) q u))"
    and "statusCode (lambda_handler lb env ev) = (if q = [] then 400 else 200)"
  using assms
  by (simp_all add: lambda_handler_def lambda_handler_try_def bad_request_def ok_def)

lemma lambda_handler_failure:
  assumes "snd (setup_aws_clients lb env) = Inl e
           \<or> (\<exists>b. snd (setup_aws_clients lb env) = Inr b) \<and> extract_request lb ev = Inl e"
  shows "lambda_handler lb env ev = server_error e"
  using assms by (auto simp: lambda_handler_def lambda_handler_try_def)

text \<open>
  When the key is absent the default applies and the handler answers 400, for the query
  parameters as for the POST body; a POST body that is null fails like null parameters.
\<close>

lemma absent_query_400:
  "lambda_handler sample_library sample_env
     \<lparr>httpMethod = Some ''GET'', body = Absent, queryStringParameters = Absent\<rparr> =
   bad_request"
  by (simp add: lambda_handler_def lambda_handler_try_def setup_sample extract_request_def
      dict_get_def)

lemma absent_body_400:
  "lambda_handler sample_library sample_env
     \<lparr>httpMethod = Some ''POST'', body = Absent, queryStringParameters = Absent\<rparr> =
   bad_request"
proof -
  have "extract_request sample_library
          \<lparr>httpMethod = Some ''POST'', body = Absent, queryStringParameters = Absent\<rparr> =
        Inr ([], True)"
    by (simp add: extract_request_def sample_library_def)
  then show ?thesis
    by (simp add: lambda_handler_def lambda_handler_try_def setup_sample)
qed

lemma null_body_500:
  "statusCode (lambda_handler lb env
     \<lparr>httpMethod = Some ''POST'', body = Null, queryStringParameters = Null\<rparr>) = 500"
  by (simp add: lambda_handler_def lambda_handler_try_def extract_request_def server_error_def
      split: sum.splits)

lemma extract_null_query:
  "extract_request lb get_without_query = Inl (AttributeError none_has_no_get)"
  by (simp add: extract_request_def get_without_query_def)

text \<open>
  Claim C9 says that a request without a question gets status 400. A GET request
  without a query string has no question, and its \<open>queryStringParameters\<close> is null: the
  default \<open>{}\<close> of \<open>event.get\<close> does not apply, \<open>.get\<close> on \<open>None\<close> raises, and the
  handler answers 500, in every environment and with every library.
\<close>

theorem missing_question_null_query_500:
  "statusCode (lambda_handler lb env get_without_query) = 500
   \<and> lambda_handler sample_library sample_env get_without_query =
       \<lparr>statusCode = 500, headers = [(''Content-Type'', ''application/json'')],
        payload = ErrorPayload (''Internal server error: '' @ none_has_no_get)\<rparr>"
  by (simp add: lambda_handler_def lambda_handler_try_def extract_null_query server_error_def
      setup_sample split: sum.splits)

lemma lower_examples:
  "lower ''true'' = ''true''" "lower ''TRUE'' = ''true''" "lower ''True'' = ''true''"
  "lower ''1'' \<noteq> ''true''" "lower ''yes'' \<noteq> ''true''" "lower ''TRUE '' \<noteq> ''true''"
  "lower ''false'' \<noteq> ''true''"
  by code_simp+

text \<open>
  Claim C10. On the path for requests other than POST, when the query parameters are a
  dictionary \<open>d\<close>, the flag is true exactly when \<open>d\<close> has no \<open>use_rag\<close> or its value in
  lower case is \<open>true\<close>; and this flag is the one given to \<open>get_compliance_answer\<close>
  when the bot is built and the question is not empty. The values \<open>1\<close>, \<open>yes\<close> and
  \<open>TRUE\<close> followed by a blank give false (lemma \<open>lower_examples\<close>).
\<close>

theorem get_use_rag_flag:
  assumes "httpMethod ev \<noteq> Some ''POST''" and "queryStringParameters ev = Present d"
  shows "extract_request lb ev =
           Inr (dict_get d ''question'' [],
                map_of d ''use_rag'' = None \<or>
                (\<exists>v. map_of d ''use_rag'' = Some v \<and> lower v = ''true''))
       \<and> (\<forall>b. snd (setup_aws_clients lb env) = Inr b \<and> dict_get d ''question'' [] \<noteq> [] \<longrightarrow>
            lambda_handler lb env ev =
              ok (get_compliance_answer b (now_isoformat lb) (dict_get d ''question'' [])
                    (map_of d ''use_rag'' = None \<or>
                     (\<exists>v. map_of d ''use_rag'' = Some v \<and> lower v = ''true''))))"
proof -
  have e: "extract_request lb ev =
           Inr (dict_get d ''question'' [],
                map_of d ''use_rag'' = None \<or>
                (\<exists>v. map_of d ''use_rag'' = Some v \<and> lower v = ''true''))"
    using assms by (auto simp: extract_request_def dict_get_def lower_examples(1) split: option.splits)
  show ?thesis
    using e by (simp add: lambda_handler_def lambda_handler_try_def)
qed

theorem get_use_rag_flag_witness:
  "extract_request sample_library
     (get_with_query [(''question'', ''What is KYC?''), (''use_rag'', ''TRUE '')]) =
     Inr (''What is KYC?'', False)
   \<and> extract_request sample_library (get_with_query [(''question'', ''What is KYC?'')]) =
     Inr (''What is KYC?'', True)"
proof -
  have m: "httpMethod (get_with_query d) \<noteq> Some ''POST''" for d
    by (simp add: get_with_query_def)
  have p: "queryStringParameters (get_with_query d) = Present d" for d
    by (simp add: get_with_query_def)
  show ?thesis
    using get_use_rag_flag [where lb = sample_library and env = sample_env,
        OF m [of "[(''question'', ''What is KYC?''), (''use_rag'', ''TRUE '')]"] p]
      get_use_rag_flag [where lb = sample_library and env = sample_env,
        OF m [of "[(''question'', ''What is KYC?'')]"] p]
    by (simp add: dict_get_def lower_examples)
qed

end
